theory Spec2Isabelle
  imports Main
begin

section \<open>The proximity model of the keyboard: \<^verbatim>\<open>proximity_info.cpp\<close>\<close>

text \<open>
  The C++ \<^verbatim>\<open>int\<close> and \<^verbatim>\<open>int32_t\<close> values are modelled by \<^typ>\<open>int\<close>. Signed overflow is
  undefined behaviour in C++ and has no value to compute, so the development is about
  the runs whose arithmetic stays in range (pixel coordinates and key codes). Everything
  else the code can do beyond returning a value is a value of the model: a read outside
  an array, a division by zero and a failed \<^verbatim>\<open>assert\<close> are faults, the log is a list.
\<close>

datatype fault = AssertionFailed | OutOfBounds | DivisionByZero

text \<open>Reading \<^verbatim>\<open>xs[i]\<close>: outside the array the behaviour of the C++ is undefined.\<close>

definition aread :: "int list \<Rightarrow> int \<Rightarrow> fault + int" where
  "aread xs i = (if 0 \<le> i \<and> i < int (length xs) then Inr (xs ! nat i) else Inl OutOfBounds)"

text \<open>The C++ operator \<^verbatim>\<open>/\<close> on \<^verbatim>\<open>int\<close>: it truncates towards zero, and traps on a zero divisor.\<close>

definition cdiv :: "int \<Rightarrow> int \<Rightarrow> fault + int" where
  "cdiv a b = (if b = 0 then Inl DivisionByZero else Inr (sgn a * sgn b * (\<bar>a\<bar> div \<bar>b\<bar>)))"

subsection \<open>The object and what it is compiled against\<close>

text \<open>
  The members of \<^verbatim>\<open>class ProximityInfo\<close> that the functions below read, with the values
  the constructor gave them. The sweet spot arrays are floating point and are read by
  none of these functions.
\<close>

record ProximityInfo =
  MAX_PROXIMITY_CHARS_SIZE :: int
  KEYBOARD_WIDTH :: int
  KEYBOARD_HEIGHT :: int
  GRID_WIDTH :: int
  GRID_HEIGHT :: int
  MOST_COMMON_KEY_WIDTH_SQUARE :: int
  CELL_WIDTH :: int
  CELL_HEIGHT :: int
  KEY_COUNT :: int
  mLocaleStr :: string
  mProximityCharsArray :: "int list"
  mKeyXCoordinates :: "int list"
  mKeyYCoordinates :: "int list"
  mKeyWidths :: "int list"
  mKeyHeights :: "int list"
  mKeyCharCodes :: "int list"
  mCodeToKeyIndex :: "int list"

text \<open>
  What \<^verbatim>\<open>proximity_info.cpp\<close> uses and does not define is a parameter of the model: the
  macros of \<^verbatim>\<open>defines.h\<close> (the debug switches and the reserved codes), \<^verbatim>\<open>NDEBUG\<close>, which
  turns \<^verbatim>\<open>assert\<close> off, the inline member \<^verbatim>\<open>isOnKey\<close> of \<^verbatim>\<open>proximity_info.h\<close>,
  \<^verbatim>\<open>toBaseLowerCase\<close>, and the two lookups of \<^verbatim>\<open>AdditionalProximityChars\<close>.
\<close>

record env =
  DEBUG_DICT :: bool
  DEBUG_PROXIMITY_INFO :: bool
  NDEBUG :: bool
  KEYCODE_SPACE :: int
  NOT_A_CODE :: int
  NOT_AN_INDEX :: int
  ADDITIONAL_PROXIMITY_CHAR_DELIMITER_CODE :: int
  MAX_CHAR_CODE :: int
  isOnKey :: "ProximityInfo \<Rightarrow> int \<Rightarrow> int \<Rightarrow> int \<Rightarrow> bool"
  toBaseLowerCase :: "int \<Rightarrow> int"
  getAdditionalCharsSize :: "string \<Rightarrow> int \<Rightarrow> int"
  getAdditionalChars :: "string \<Rightarrow> int \<Rightarrow> int list"

text \<open>The lines the code writes with \<^verbatim>\<open>AKLOGI\<close>, one constructor for each format string.\<close>

datatype log_entry =
    IllegalCoordinates int int
  | HasSpaceProximityIndex int int int
  | Index int

subsection \<open>\<^verbatim>\<open>getStartIndexFromCoordinates\<close>\<close>

definition getStartIndexFromCoordinates :: "ProximityInfo \<Rightarrow> int \<Rightarrow> int \<Rightarrow> fault + int" where
  "getStartIndexFromCoordinates p x y =
     (case cdiv y (CELL_HEIGHT p) of
        Inl f \<Rightarrow> Inl f
      | Inr row \<Rightarrow>
          (case cdiv x (CELL_WIDTH p) of
             Inl f \<Rightarrow> Inl f
           | Inr col \<Rightarrow> Inr ((row * GRID_WIDTH p + col) * MAX_PROXIMITY_CHARS_SIZE p)))"

subsection \<open>\<^verbatim>\<open>hasSpaceProximity\<close>\<close>

text \<open>
  The loop over the cell, from entry \<open>i\<close> on, with the log written so far. The debug line
  reads the same entry as the comparison after it.
\<close>

function hasSpaceLoop ::
  "env \<Rightarrow> ProximityInfo \<Rightarrow> int \<Rightarrow> int \<Rightarrow> log_entry list \<Rightarrow> log_entry list \<times> (fault + bool)"
where
  "hasSpaceLoop d p startIndex i lg =
     (if i < MAX_PROXIMITY_CHARS_SIZE p then
        (case aread (mProximityCharsArray p) (startIndex + i) of
           Inl f \<Rightarrow> (lg, Inl f)
         | Inr c \<Rightarrow>
             (let lg' = (if DEBUG_PROXIMITY_INFO d then lg @ [Index c] else lg) in
              if c = KEYCODE_SPACE d then (lg', Inr True)
              else hasSpaceLoop d p startIndex (i + 1) lg'))
      else (lg, Inr False))"
  by pat_completeness auto
termination
  by (relation "measure (\<lambda>(d, p, startIndex, i, lg). nat (MAX_PROXIMITY_CHARS_SIZE p - i))") auto

declare hasSpaceLoop.simps [simp del]

definition hasSpaceProximity ::
  "env \<Rightarrow> ProximityInfo \<Rightarrow> int \<Rightarrow> int \<Rightarrow> log_entry list \<times> (fault + bool)"
where
  "hasSpaceProximity d p x y =
     (if x < 0 \<or> y < 0 then
        (if DEBUG_DICT d then
           ([IllegalCoordinates x y], if NDEBUG d then Inr False else Inl AssertionFailed)
         else ([], Inr False))
      else
        (case getStartIndexFromCoordinates p x y of
           Inl f \<Rightarrow> ([], Inl f)
         | Inr startIndex \<Rightarrow>
             hasSpaceLoop d p startIndex 0
               (if DEBUG_PROXIMITY_INFO d then [HasSpaceProximityIndex startIndex x y] else [])))"

subsection \<open>\<^verbatim>\<open>squaredDistanceToEdge\<close> and \<^verbatim>\<open>getKeyIndex\<close>\<close>

text \<open>For a negative key id the C++ returns \<^verbatim>\<open>true\<close> from a function of type \<^verbatim>\<open>int\<close>: the value 1.\<close>

definition squaredDistanceToEdge :: "ProximityInfo \<Rightarrow> int \<Rightarrow> int \<Rightarrow> int \<Rightarrow> fault + int" where
  "squaredDistanceToEdge p keyId x y =
     (if keyId < 0 then Inr 1
      else
        (case aread (mKeyXCoordinates p) keyId of
           Inl f \<Rightarrow> Inl f
         | Inr left \<Rightarrow>
        (case aread (mKeyYCoordinates p) keyId of
           Inl f \<Rightarrow> Inl f
         | Inr top' \<Rightarrow>
        (case aread (mKeyWidths p) keyId of
           Inl f \<Rightarrow> Inl f
         | Inr w \<Rightarrow>
        (case aread (mKeyHeights p) keyId of
           Inl f \<Rightarrow> Inl f
         | Inr h \<Rightarrow>
             (let right = left + w;
                  bottom = top' + h;
                  edgeX = (if x < left then left else (if x > right then right else x));
                  edgeY = (if y < top' then top' else (if y > bottom then bottom else y));
                  dx = x - edgeX;
                  dy = y - edgeY
              in Inr (dx * dx + dy * dy)))))))"

text \<open>The local \<^verbatim>\<open>baseLowerC\<close> is an \<^verbatim>\<open>unsigned short\<close>: the conversion is modulo \<open>2 ^ 16\<close>.\<close>

definition getKeyIndex :: "env \<Rightarrow> ProximityInfo \<Rightarrow> int \<Rightarrow> fault + int" where
  "getKeyIndex d p c =
     (if KEY_COUNT p = 0 then Inr (NOT_AN_INDEX d)
      else
        (let baseLowerC = toBaseLowerCase d c mod 65536 in
         if baseLowerC > MAX_CHAR_CODE d then Inr (NOT_AN_INDEX d)
         else aread (mCodeToKeyIndex p) baseLowerC))"

subsection \<open>\<^verbatim>\<open>calculateNearbyKeyCodes\<close>\<close>

text \<open>
  The caller's array \<^verbatim>\<open>int *inputCodes\<close> is a store from indices to values: the function
  is given a pointer and no length, and a write lands wherever its index says. Inside
  a loop the function either returns or leaves the loop with the insert position.
\<close>

type_synonym codes = "int \<Rightarrow> int"

datatype ctl = Returned codes | Fallthrough int codes

text \<open>The block \<^verbatim>\<open>if (DEBUG_DICT) { assert(false); } return;\<close> that follows every append in a loop.\<close>

definition returnFull :: "env \<Rightarrow> codes \<Rightarrow> fault + ctl" where
  "returnFull d inputCodes =
     (if DEBUG_DICT d \<and> \<not> NDEBUG d then Inl AssertionFailed else Inr (Returned inputCodes))"

text \<open>The loop over the entries of the grid cell, from entry \<open>i\<close> on.\<close>

function gridLoop ::
  "env \<Rightarrow> ProximityInfo \<Rightarrow> int \<Rightarrow> int \<Rightarrow> int \<Rightarrow> int \<Rightarrow> int \<Rightarrow> int \<Rightarrow> codes \<Rightarrow> fault + ctl"
where
  "gridLoop d p x y primaryKey startIndex i insertPos inputCodes =
     (if i < MAX_PROXIMITY_CHARS_SIZE p then
        (case aread (mProximityCharsArray p) (startIndex + i) of
           Inl f \<Rightarrow> Inl f
         | Inr c \<Rightarrow>
             if c < KEYCODE_SPACE d \<or> c = primaryKey then
               gridLoop d p x y primaryKey startIndex (i + 1) insertPos inputCodes
             else
               (case getKeyIndex d p c of
                  Inl f \<Rightarrow> Inl f
                | Inr keyIndex \<Rightarrow>
                    (let onKey = isOnKey d p keyIndex x y in
                     case squaredDistanceToEdge p keyIndex x y of
                       Inl f \<Rightarrow> Inl f
                     | Inr distance \<Rightarrow>
                         if onKey \<or> distance < MOST_COMMON_KEY_WIDTH_SQUARE p then
                           (if insertPos + 1 \<ge> MAX_PROXIMITY_CHARS_SIZE p then
                              returnFull d (inputCodes(insertPos := c))
                            else
                              gridLoop d p x y primaryKey startIndex (i + 1)
                                (insertPos + 1) (inputCodes(insertPos := c)))
                         else
                           gridLoop d p x y primaryKey startIndex (i + 1) insertPos inputCodes)))
      else Inr (Fallthrough insertPos inputCodes))"
  by pat_completeness auto
termination
  by (relation "measure (\<lambda>(d, p, x, y, primaryKey, startIndex, i, insertPos, inputCodes).
        nat (MAX_PROXIMITY_CHARS_SIZE p - i))") auto

declare gridLoop.simps [simp del]

text \<open>The linear scan \<^verbatim>\<open>for (; k < insertPos; ++k)\<close> with its \<^verbatim>\<open>break\<close>: the value of \<open>k\<close> after it.\<close>

function scanLoop :: "int \<Rightarrow> codes \<Rightarrow> int \<Rightarrow> int \<Rightarrow> int" where
  "scanLoop ac inputCodes insertPos k =
     (if k < insertPos then
        (if ac = inputCodes k then k else scanLoop ac inputCodes insertPos (k + 1))
      else k)"
  by pat_completeness auto
termination
  by (relation "measure (\<lambda>(ac, inputCodes, insertPos, k). nat (insertPos - k))") auto

declare scanLoop.simps [simp del]

text \<open>The loop over the additional proximity characters, from entry \<open>j\<close> on.\<close>

function additionalLoop ::
  "env \<Rightarrow> ProximityInfo \<Rightarrow> int list \<Rightarrow> int \<Rightarrow> int \<Rightarrow> int \<Rightarrow> codes \<Rightarrow> fault + ctl"
where
  "additionalLoop d p additionalProximityChars additionalProximitySize j insertPos inputCodes =
     (if j < additionalProximitySize then
        (case aread additionalProximityChars j of
           Inl f \<Rightarrow> Inl f
         | Inr ac \<Rightarrow>
             (let k = scanLoop ac inputCodes insertPos 0 in
              if k < insertPos then
                additionalLoop d p additionalProximityChars additionalProximitySize (j + 1)
                  insertPos inputCodes
              else if insertPos + 1 \<ge> MAX_PROXIMITY_CHARS_SIZE p then
                returnFull d (inputCodes(insertPos := ac))
              else
                additionalLoop d p additionalProximityChars additionalProximitySize (j + 1)
                  (insertPos + 1) (inputCodes(insertPos := ac))))
      else Inr (Fallthrough insertPos inputCodes))"
  by pat_completeness auto
termination
  by (relation "measure (\<lambda>(d, p, additionalProximityChars, additionalProximitySize, j,
        insertPos, inputCodes). nat (additionalProximitySize - j))") auto

declare additionalLoop.simps [simp del]

text \<open>The last loop, which fills the rest of the array.\<close>

function padLoop :: "env \<Rightarrow> ProximityInfo \<Rightarrow> int \<Rightarrow> codes \<Rightarrow> codes" where
  "padLoop d p i inputCodes =
     (if i < MAX_PROXIMITY_CHARS_SIZE p then
        padLoop d p (i + 1) (inputCodes(i := NOT_A_CODE d))
      else inputCodes)"
  by pat_completeness auto
termination
  by (relation "measure (\<lambda>(d, p, i, inputCodes). nat (MAX_PROXIMITY_CHARS_SIZE p - i))") auto

declare padLoop.simps [simp del]

text \<open>The body of \<^verbatim>\<open>if (startIndex >= 0) { ... }\<close>, entered with \<open>insertPos = 1\<close>.\<close>

definition nearbyBlock ::
  "env \<Rightarrow> ProximityInfo \<Rightarrow> int \<Rightarrow> int \<Rightarrow> int \<Rightarrow> int \<Rightarrow> int \<Rightarrow> codes \<Rightarrow> fault + ctl"
where
  "nearbyBlock d p x y primaryKey startIndex insertPos0 inputCodes0 =
     (case gridLoop d p x y primaryKey startIndex 0 insertPos0 inputCodes0 of
        Inl f \<Rightarrow> Inl f
      | Inr (Returned inputCodes) \<Rightarrow> Inr (Returned inputCodes)
      | Inr (Fallthrough insertPos inputCodes) \<Rightarrow>
          (let additionalProximitySize = getAdditionalCharsSize d (mLocaleStr p) primaryKey in
           if additionalProximitySize > 0 then
             (if insertPos + 1 \<ge> MAX_PROXIMITY_CHARS_SIZE p then
                returnFull d
                  (inputCodes(insertPos := ADDITIONAL_PROXIMITY_CHAR_DELIMITER_CODE d))
              else
                additionalLoop d p (getAdditionalChars d (mLocaleStr p) primaryKey)
                  additionalProximitySize 0 (insertPos + 1)
                  (inputCodes(insertPos := ADDITIONAL_PROXIMITY_CHAR_DELIMITER_CODE d)))
           else Inr (Fallthrough insertPos inputCodes)))"

definition calculateNearbyKeyCodes ::
  "env \<Rightarrow> ProximityInfo \<Rightarrow> int \<Rightarrow> int \<Rightarrow> int \<Rightarrow> codes \<Rightarrow> fault + codes"
where
  "calculateNearbyKeyCodes d p x y primaryKey inputCodes =
     (case getStartIndexFromCoordinates p x y of
        Inl f \<Rightarrow> Inl f
      | Inr startIndex \<Rightarrow>
          (case (if startIndex \<ge> 0 then
                   nearbyBlock d p x y primaryKey startIndex 1 (inputCodes(0 := primaryKey))
                 else Inr (Fallthrough 1 (inputCodes(0 := primaryKey)))) of
             Inl f \<Rightarrow> Inl f
           | Inr (Returned inputCodes') \<Rightarrow> Inr inputCodes'
           | Inr (Fallthrough insertPos inputCodes') \<Rightarrow> Inr (padLoop d p insertPos inputCodes')))"

text \<open>The first \<open>n\<close> entries of the caller's array, as a list.\<close>

definition readCodes :: "codes \<Rightarrow> nat \<Rightarrow> int list" where
  "readCodes inputCodes n = map (\<lambda>k. inputCodes (int k)) [0..<n]"

section \<open>The error tolerances of \<^verbatim>\<open>unigram_dictionary.h\<close>\<close>

definition DEFAULT_MAX_ERRORS :: int where
  "DEFAULT_MAX_ERRORS = 2"

definition MAX_ERRORS_FOR_TWO_WORDS :: int where
  "MAX_ERRORS_FOR_TWO_WORDS = 1"

section \<open>What the claims are stated with\<close>

text \<open>The caller's array after the list \<open>cs\<close> has been written from index 0 on.\<close>

definition writeCodes :: "codes \<Rightarrow> int list \<Rightarrow> codes" where
  "writeCodes inputCodes cs =
     (\<lambda>k. if 0 \<le> k \<and> k < int (length cs) then cs ! nat k else inputCodes k)"

text \<open>The entries of the grid cell that starts at \<open>startIndex\<close>, and when they all exist.\<close>

definition cellCodes :: "ProximityInfo \<Rightarrow> int \<Rightarrow> int list" where
  "cellCodes p startIndex =
     take (nat (MAX_PROXIMITY_CHARS_SIZE p)) (drop (nat startIndex) (mProximityCharsArray p))"

definition cellInRange :: "ProximityInfo \<Rightarrow> int \<Rightarrow> bool" where
  "cellInRange p startIndex =
     (0 \<le> startIndex \<and>
      startIndex + MAX_PROXIMITY_CHARS_SIZE p \<le> int (length (mProximityCharsArray p)))"

text \<open>
  A key id that \<^const>\<open>squaredDistanceToEdge\<close> can read the geometry of (a negative one is
  never looked up), and a code table that yields only such ids.
\<close>

definition validKeyId :: "ProximityInfo \<Rightarrow> int \<Rightarrow> bool" where
  "validKeyId p keyId =
     (keyId < int (length (mKeyXCoordinates p)) \<and> keyId < int (length (mKeyYCoordinates p)) \<and>
      keyId < int (length (mKeyWidths p)) \<and> keyId < int (length (mKeyHeights p)))"

definition keysReadable :: "env \<Rightarrow> ProximityInfo \<Rightarrow> bool" where
  "keysReadable d p =
     (validKeyId p (NOT_AN_INDEX d) \<and>
      (KEY_COUNT p = 0 \<or>
       (MAX_CHAR_CODE d < int (length (mCodeToKeyIndex p)) \<and>
        list_all (validKeyId p) (mCodeToKeyIndex p))))"

text \<open>
  The test that lets a code of the cell into the list: not below the space code, not the
  primary code, and on its key or closer to it than the most common key width.
\<close>

definition admits :: "env \<Rightarrow> ProximityInfo \<Rightarrow> int \<Rightarrow> int \<Rightarrow> int \<Rightarrow> int \<Rightarrow> bool" where
  "admits d p x y primaryKey c =
     (\<not> c < KEYCODE_SPACE d \<and> c \<noteq> primaryKey \<and>
      (case getKeyIndex d p c of
         Inl f \<Rightarrow> False
       | Inr keyIndex \<Rightarrow>
           (case squaredDistanceToEdge p keyIndex x y of
              Inl f \<Rightarrow> False
            | Inr distance \<Rightarrow>
                isOnKey d p keyIndex x y \<or> distance < MOST_COMMON_KEY_WIDTH_SQUARE p)))"

definition nearbyCodes :: "env \<Rightarrow> ProximityInfo \<Rightarrow> int \<Rightarrow> int \<Rightarrow> int \<Rightarrow> int \<Rightarrow> int list" where
  "nearbyCodes d p x y primaryKey startIndex =
     filter (admits d p x y primaryKey) (cellCodes p startIndex)"

text \<open>The codes of \<open>acs\<close>, in order, that are new to what has been written before them.\<close>

fun newChars :: "int list \<Rightarrow> int list \<Rightarrow> int list" where
  "newChars cs [] = []"
| "newChars cs (ac # acs) =
     (if ac \<in> set cs then newChars cs acs else ac # newChars (cs @ [ac]) acs)"

definition additionalChars :: "env \<Rightarrow> ProximityInfo \<Rightarrow> int \<Rightarrow> int list" where
  "additionalChars d p primaryKey =
     take (nat (getAdditionalCharsSize d (mLocaleStr p) primaryKey))
       (getAdditionalChars d (mLocaleStr p) primaryKey)"

text \<open>
  The codes the function has to write when nothing stops it: the primary code, the codes
  of the cell that pass the test and, when the locale has additional characters for the
  primary code, the delimiter and those of them that are new.
\<close>

definition candidatesAt :: "env \<Rightarrow> ProximityInfo \<Rightarrow> int \<Rightarrow> int \<Rightarrow> int \<Rightarrow> int \<Rightarrow> int list" where
  "candidatesAt d p x y primaryKey startIndex =
     (let near = primaryKey # nearbyCodes d p x y primaryKey startIndex in
      if getAdditionalCharsSize d (mLocaleStr p) primaryKey > 0 then
        near @ [ADDITIONAL_PROXIMITY_CHAR_DELIMITER_CODE d] @
        newChars (near @ [ADDITIONAL_PROXIMITY_CHAR_DELIMITER_CODE d]) (additionalChars d p primaryKey)
      else near)"

definition candidates :: "env \<Rightarrow> ProximityInfo \<Rightarrow> int \<Rightarrow> int \<Rightarrow> int \<Rightarrow> int list" where
  "candidates d p x y primaryKey =
     (case getStartIndexFromCoordinates p x y of
        Inl f \<Rightarrow> [primaryKey]
      | Inr startIndex \<Rightarrow>
          if startIndex \<ge> 0 then candidatesAt d p x y primaryKey startIndex else [primaryKey])"

text \<open>
  The call reads nothing outside an array: the cell sizes are not zero, the cell of the
  touch point is inside the grid when it is looked at, every code leads to a key that
  exists, and the additional characters are as many as their size says.
\<close>

definition readable :: "env \<Rightarrow> ProximityInfo \<Rightarrow> int \<Rightarrow> int \<Rightarrow> int \<Rightarrow> bool" where
  "readable d p x y primaryKey =
     (keysReadable d p \<and>
      getAdditionalCharsSize d (mLocaleStr p) primaryKey
        \<le> int (length (getAdditionalChars d (mLocaleStr p) primaryKey)) \<and>
      (case getStartIndexFromCoordinates p x y of
         Inl f \<Rightarrow> False
       | Inr startIndex \<Rightarrow> startIndex < 0 \<or> cellInRange p startIndex))"

text \<open>How a loop ends, and how the function ends, once the list \<open>cand\<close> is all there is to write.\<close>

definition afterLoop :: "env \<Rightarrow> ProximityInfo \<Rightarrow> codes \<Rightarrow> int list \<Rightarrow> fault + ctl" where
  "afterLoop d p buf cand =
     (if MAX_PROXIMITY_CHARS_SIZE p \<le> int (length cand) then
        returnFull d (writeCodes buf (take (nat (MAX_PROXIMITY_CHARS_SIZE p)) cand))
      else Inr (Fallthrough (int (length cand)) (writeCodes buf cand)))"

text \<open>
  The number of entries at which the function stops: it compares the insert position
  with \<^verbatim>\<open>MAX_PROXIMITY_CHARS_SIZE\<close> after every append but the first, that of the primary
  code, so it never stops before the second entry.
\<close>

definition capacity :: "ProximityInfo \<Rightarrow> nat" where
  "capacity p = nat (max 2 (MAX_PROXIMITY_CHARS_SIZE p))"

definition finish :: "env \<Rightarrow> ProximityInfo \<Rightarrow> codes \<Rightarrow> int list \<Rightarrow> fault + codes" where
  "finish d p buf cand =
     (if capacity p \<le> length cand then
        (if DEBUG_DICT d \<and> \<not> NDEBUG d then Inl AssertionFailed
         else Inr (writeCodes buf (take (capacity p) cand)))
      else
        Inr (writeCodes buf
          (cand @ replicate (nat (MAX_PROXIMITY_CHARS_SIZE p) - length cand) (NOT_A_CODE d))))"






subsection \<open>Keyboards to run the code on\<close>

text \<open>
  A keyboard of 20 by 20 pixels without key coordinates (\<open>KEY_COUNT = 0\<close>, so that
  \<^const>\<open>getKeyIndex\<close> answers \<open>NOT_AN_INDEX\<close> for every code), under a grid of 2 by 2 cells
  of 10 by 10 pixels with 6 codes each: \<open>a\<close> = 97 and \<open>e\<close> = 101 in the upper cells, the
  space 32 in the lower ones.
\<close>

definition exampleKeyboard :: ProximityInfo where
  "exampleKeyboard =
     \<lparr>MAX_PROXIMITY_CHARS_SIZE = 6, KEYBOARD_WIDTH = 20, KEYBOARD_HEIGHT = 20,
      GRID_WIDTH = 2, GRID_HEIGHT = 2, MOST_COMMON_KEY_WIDTH_SQUARE = 100,
      CELL_WIDTH = 10, CELL_HEIGHT = 10, KEY_COUNT = 0, mLocaleStr = ''en'',
      mProximityCharsArray =
        [97, 101, 0, 0, 0, 0,
         101, 97, 0, 0, 0, 0,
         32, 97, 0, 0, 0, 0,
         32, 101, 0, 0, 0, 0],
      mKeyXCoordinates = [], mKeyYCoordinates = [], mKeyWidths = [], mKeyHeights = [],
      mKeyCharCodes = [], mCodeToKeyIndex = replicate 128 (- 1)\<rparr>"

text \<open>
  A release build with the reserved codes of the Android sources. A negative key id is
  on its key; the only additional characters are \<open>e\<close> and \<open>i\<close> = 105, for the code \<open>a\<close>.
\<close>

definition exampleIsOnKey :: "ProximityInfo \<Rightarrow> int \<Rightarrow> int \<Rightarrow> int \<Rightarrow> bool" where
  "exampleIsOnKey p keyId x y = (keyId < 0)"

definition exampleAdditionalChars :: "string \<Rightarrow> int \<Rightarrow> int list" where
  "exampleAdditionalChars locale c = (if c = 97 then [101, 105] else [])"

definition exampleAdditionalCharsSize :: "string \<Rightarrow> int \<Rightarrow> int" where
  "exampleAdditionalCharsSize locale c = (if c = 97 then 2 else 0)"

definition exampleEnv :: env where
  "exampleEnv =
     \<lparr>DEBUG_DICT = False, DEBUG_PROXIMITY_INFO = False, NDEBUG = True,
      KEYCODE_SPACE = 32, NOT_A_CODE = - 1, NOT_AN_INDEX = - 1,
      ADDITIONAL_PROXIMITY_CHAR_DELIMITER_CODE = 2, MAX_CHAR_CODE = 127,
      isOnKey = exampleIsOnKey, toBaseLowerCase = (\<lambda>c. c),
      getAdditionalCharsSize = exampleAdditionalCharsSize,
      getAdditionalChars = exampleAdditionalChars\<rparr>"

text \<open>The debug build of the same environment, with \<^verbatim>\<open>assert\<close> enabled.\<close>

definition debugEnv :: env where
  "debugEnv = exampleEnv\<lparr>DEBUG_DICT := True, NDEBUG := False\<rparr>"

text \<open>The same keyboard under grids whose cells hold 2 codes, and 1 code.\<close>

definition smallKeyboard :: ProximityInfo where
  "smallKeyboard =
     exampleKeyboard\<lparr>MAX_PROXIMITY_CHARS_SIZE := 2,
       mProximityCharsArray := [97, 101,  101, 97,  32, 97,  32, 101]\<rparr>"

definition tinyKeyboard :: ProximityInfo where
  "tinyKeyboard =
     exampleKeyboard\<lparr>MAX_PROXIMITY_CHARS_SIZE := 1,
       mProximityCharsArray := [97, 101, 32, 32]\<rparr>"

text \<open>The same keyboard when the most common key is one pixel wide.\<close>

definition narrowKeyboard :: ProximityInfo where
  "narrowKeyboard = exampleKeyboard\<lparr>MOST_COMMON_KEY_WIDTH_SQUARE := 1\<rparr>"


definition zeroCodes :: codes where
  "zeroCodes = (\<lambda>k. 0)"

section \<open>What the loops compute\<close>

lemma squaredDistanceToEdge_total:
  "validKeyId p keyId \<Longrightarrow> \<exists>v. squaredDistanceToEdge p keyId x y = Inr v"
  by (simp add: squaredDistanceToEdge_def validKeyId_def aread_def Let_def)

lemma getKeyIndex_total:
  assumes "keysReadable d p"
  shows "\<exists>k. getKeyIndex d p c = Inr k \<and> validKeyId p k"
proof (cases "KEY_COUNT p = 0")
  case True
  with assms show ?thesis by (simp add: getKeyIndex_def keysReadable_def)
next
  case False
  let ?b = "toBaseLowerCase d c mod 65536"
  have b0: "0 \<le> ?b" by simp
  from False assms have len: "MAX_CHAR_CODE d < int (length (mCodeToKeyIndex p))"
    and all: "list_all (validKeyId p) (mCodeToKeyIndex p)"
    and nai: "validKeyId p (NOT_AN_INDEX d)"
    by (simp_all add: keysReadable_def)
  show ?thesis
  proof (cases "?b > MAX_CHAR_CODE d")
    case True
    with False nai show ?thesis by (simp add: getKeyIndex_def Let_def)
  next
    case b: False
    then have lt: "?b < int (length (mCodeToKeyIndex p))" using len by linarith
    then have "nat ?b < length (mCodeToKeyIndex p)" using b0 by linarith
    then have "validKeyId p (mCodeToKeyIndex p ! nat ?b)"
      using all by (simp add: list_all_length)
    with False b b0 lt show ?thesis
      by (simp add: getKeyIndex_def Let_def aread_def)
  qed
qed

lemma writeCodes_append:
  "(writeCodes buf cs)(int (length cs) := v) = writeCodes buf (cs @ [v])"
  by (rule ext) (auto simp: writeCodes_def nth_append nat_less_iff)

lemma cellCodes_length:
  "cellInRange p s \<Longrightarrow> length (cellCodes p s) = nat (MAX_PROXIMITY_CHARS_SIZE p)"
  by (auto simp: cellCodes_def cellInRange_def)

lemma cellCodes_nth:
  assumes "cellInRange p s" "0 \<le> i" "i < MAX_PROXIMITY_CHARS_SIZE p"
  shows "aread (mProximityCharsArray p) (s + i) = Inr (cellCodes p s ! nat i)"
proof -
  from assms have "nat s + nat i < length (mProximityCharsArray p)"
    by (simp add: cellInRange_def) linarith
  moreover from assms have "nat (s + i) = nat s + nat i"
    by (simp add: cellInRange_def nat_add_distrib)
  ultimately show ?thesis using assms
    by (simp add: aread_def cellCodes_def cellInRange_def)
qed

lemma drop_cell_Cons:
  assumes "cellInRange p s" "0 \<le> i" "i < MAX_PROXIMITY_CHARS_SIZE p"
  shows "drop (nat i) (cellCodes p s) = cellCodes p s ! nat i # drop (nat (i + 1)) (cellCodes p s)"
proof -
  from assms have "nat i < length (cellCodes p s)"
    by (simp add: cellCodes_length)
  moreover from assms have "nat (i + 1) = Suc (nat i)" by simp
  ultimately show ?thesis by (simp add: Cons_nth_drop_Suc)
qed

lemma gridLoop_unfold_skip:
  assumes "i < MAX_PROXIMITY_CHARS_SIZE p"
    and "aread (mProximityCharsArray p) (startIndex + i) = Inr c"
    and "\<not> admits d p x y primaryKey c"
    and "keysReadable d p"
  shows "gridLoop d p x y primaryKey startIndex i insertPos inputCodes =
         gridLoop d p x y primaryKey startIndex (i + 1) insertPos inputCodes"
proof -
  obtain k where k: "getKeyIndex d p c = Inr k" "validKeyId p k"
    using getKeyIndex_total [OF assms(4)] by blast
  obtain v where v: "squaredDistanceToEdge p k x y = Inr v"
    using squaredDistanceToEdge_total [OF k(2)] by blast
  show ?thesis
    using assms(1,2,3) k(1) v
    by (subst gridLoop.simps) (auto simp: admits_def Let_def)
qed

lemma gridLoop_unfold_take:
  assumes "i < MAX_PROXIMITY_CHARS_SIZE p"
    and "aread (mProximityCharsArray p) (startIndex + i) = Inr c"
    and "admits d p x y primaryKey c"
    and "keysReadable d p"
  shows "gridLoop d p x y primaryKey startIndex i insertPos inputCodes =
         (if insertPos + 1 \<ge> MAX_PROXIMITY_CHARS_SIZE p then
            returnFull d (inputCodes(insertPos := c))
          else gridLoop d p x y primaryKey startIndex (i + 1) (insertPos + 1)
                 (inputCodes(insertPos := c)))"
proof -
  obtain k where k: "getKeyIndex d p c = Inr k" "validKeyId p k"
    using getKeyIndex_total [OF assms(4)] by blast
  obtain v where v: "squaredDistanceToEdge p k x y = Inr v"
    using squaredDistanceToEdge_total [OF k(2)] by blast
  show ?thesis
    using assms(1,2,3) k(1) v
    by (subst gridLoop.simps) (auto simp: admits_def Let_def)
qed

lemma gridLoop_exit:
  "\<not> i < MAX_PROXIMITY_CHARS_SIZE p \<Longrightarrow>
   gridLoop d p x y primaryKey startIndex i insertPos inputCodes =
   Inr (Fallthrough insertPos inputCodes)"
  by (subst gridLoop.simps) simp

lemma gridLoop_spec:
  assumes wf: "keysReadable d p" and cell: "cellInRange p s"
  shows "0 \<le> i \<Longrightarrow> int (length cs) < MAX_PROXIMITY_CHARS_SIZE p \<Longrightarrow>
         gridLoop d p x y primaryKey s i (int (length cs)) (writeCodes buf cs) =
         afterLoop d p buf
           (cs @ filter (admits d p x y primaryKey) (drop (nat i) (cellCodes p s)))"
proof (induction "nat (MAX_PROXIMITY_CHARS_SIZE p - i)" arbitrary: i cs)
  case 0
  then have "\<not> i < MAX_PROXIMITY_CHARS_SIZE p" by simp
  moreover from this cell have "drop (nat i) (cellCodes p s) = []"
    by (simp add: cellCodes_length)
  ultimately show ?case using "0.prems"
    by (simp add: gridLoop_exit afterLoop_def)
next
  case (Suc n)
  let ?M = "MAX_PROXIMITY_CHARS_SIZE p"
  let ?c = "cellCodes p s ! nat i"
  from Suc.hyps(2) have lt: "i < ?M" by simp
  have rd: "aread (mProximityCharsArray p) (s + i) = Inr ?c"
    using cellCodes_nth [OF cell Suc.prems(1) lt] .
  have dr: "drop (nat i) (cellCodes p s) = ?c # drop (nat (i + 1)) (cellCodes p s)"
    using drop_cell_Cons [OF cell Suc.prems(1) lt] .
  have n: "n = nat (?M - (i + 1))" using Suc.hyps(2) by simp
  have i1: "0 \<le> i + 1" using Suc.prems(1) by simp
  show ?case
  proof (cases "admits d p x y primaryKey ?c")
    case False
    have "gridLoop d p x y primaryKey s i (int (length cs)) (writeCodes buf cs) =
          gridLoop d p x y primaryKey s (i + 1) (int (length cs)) (writeCodes buf cs)"
      using gridLoop_unfold_skip [OF lt rd False wf] .
    also have "\<dots> = afterLoop d p buf
        (cs @ filter (admits d p x y primaryKey) (drop (nat (i + 1)) (cellCodes p s)))"
      using Suc.hyps(1) [OF n i1 Suc.prems(2)] .
    finally show ?thesis using False dr by simp
  next
    case True
    have step: "gridLoop d p x y primaryKey s i (int (length cs)) (writeCodes buf cs) =
          (if int (length cs) + 1 \<ge> ?M then
             returnFull d ((writeCodes buf cs)(int (length cs) := ?c))
           else gridLoop d p x y primaryKey s (i + 1) (int (length cs) + 1)
                  ((writeCodes buf cs)(int (length cs) := ?c)))"
      using gridLoop_unfold_take [OF lt rd True wf] .
    show ?thesis
    proof (cases "int (length cs) + 1 \<ge> ?M")
      case full: True
      with Suc.prems(2) have "nat ?M = Suc (length cs)" by linarith
      with step full True dr show ?thesis
        by (simp add: afterLoop_def writeCodes_append)
    next
      case room: False
      then have len: "int (length (cs @ [?c])) < ?M" by simp
      have "gridLoop d p x y primaryKey s i (int (length cs)) (writeCodes buf cs) =
            gridLoop d p x y primaryKey s (i + 1) (int (length (cs @ [?c])))
              (writeCodes buf (cs @ [?c]))"
        using step room by (simp add: writeCodes_append add.commute)
      also have "\<dots> = afterLoop d p buf
          ((cs @ [?c]) @ filter (admits d p x y primaryKey) (drop (nat (i + 1)) (cellCodes p s)))"
        using Suc.hyps(1) [OF n i1 len] .
      finally show ?thesis using True dr by simp
    qed
  qed
qed

lemma scanLoop_less:
  "0 \<le> k \<Longrightarrow>
   (scanLoop ac inputCodes insertPos k < insertPos) =
   (\<exists>j. k \<le> j \<and> j < insertPos \<and> inputCodes j = ac)"
proof (induction ac inputCodes insertPos k rule: scanLoop.induct)
  case (1 ac inputCodes insertPos k)
  have "(\<exists>j. k + 1 \<le> j \<and> j < insertPos \<and> inputCodes j = ac) =
        (\<exists>j. k \<le> j \<and> j < insertPos \<and> inputCodes j = ac)" if "ac \<noteq> inputCodes k"
    using that by (metis add1_zle_eq order_le_less)
  with 1 show ?case by (subst scanLoop.simps) auto
qed

lemma scanLoop_member:
  "(scanLoop ac (writeCodes buf cs) (int (length cs)) 0 < int (length cs)) = (ac \<in> set cs)"
proof -
  have "(\<exists>j. 0 \<le> j \<and> j < int (length cs) \<and> cs ! nat j = ac) = (ac \<in> set cs)"
    by (metis in_set_conv_nth nat_int nat_less_iff of_nat_0_le_iff of_nat_less_iff)
  then show ?thesis by (auto simp: scanLoop_less writeCodes_def)
qed

lemma afterLoop_full:
  assumes "nat (MAX_PROXIMITY_CHARS_SIZE p) = length cs"
  shows "afterLoop d p buf (cs @ zs) = returnFull d (writeCodes buf cs)"
proof -
  from assms have "MAX_PROXIMITY_CHARS_SIZE p \<le> int (length (cs @ zs))" by simp
  moreover from assms have "take (nat (MAX_PROXIMITY_CHARS_SIZE p)) (cs @ zs) = cs" by simp
  ultimately show ?thesis by (simp only: afterLoop_def if_True)
qed

lemma additionalLoop_spec:
  assumes size: "n \<le> int (length chars)"
  shows "0 \<le> j \<Longrightarrow> int (length cs) < MAX_PROXIMITY_CHARS_SIZE p \<Longrightarrow>
         additionalLoop d p chars n j (int (length cs)) (writeCodes buf cs) =
         afterLoop d p buf (cs @ newChars cs (drop (nat j) (take (nat n) chars)))"
proof (induction "nat (n - j)" arbitrary: j cs)
  case 0
  then have "\<not> j < n" by simp
  moreover from this have "drop (nat j) (take (nat n) chars) = []" by simp
  ultimately show ?case using "0.prems"
    by (subst additionalLoop.simps) (simp add: afterLoop_def)
next
  case (Suc m)
  let ?M = "MAX_PROXIMITY_CHARS_SIZE p"
  let ?ac = "chars ! nat j"
  let ?rest = "drop (nat (j + 1)) (take (nat n) chars)"
  from Suc.hyps(2) have lt: "j < n" by simp
  with size Suc.prems(1) have rd: "aread chars j = Inr ?ac" by (simp add: aread_def)
  from lt size Suc.prems(1) have lj: "nat j < length (take (nat n) chars)" by simp
  have "drop (nat j) (take (nat n) chars) =
      take (nat n) chars ! nat j # drop (Suc (nat j)) (take (nat n) chars)"
    by (rule Cons_nth_drop_Suc [OF lj, symmetric])
  moreover from lt Suc.prems(1) have "take (nat n) chars ! nat j = ?ac" by simp
  moreover from Suc.prems(1) have "Suc (nat j) = nat (j + 1)" by simp
  ultimately have dr: "drop (nat j) (take (nat n) chars) = ?ac # ?rest" by simp
  have m: "m = nat (n - (j + 1))" using Suc.hyps(2) by simp
  have j1: "0 \<le> j + 1" using Suc.prems(1) by simp
  show ?case
  proof (cases "?ac \<in> set cs")
    case True
    then have "additionalLoop d p chars n j (int (length cs)) (writeCodes buf cs) =
          additionalLoop d p chars n (j + 1) (int (length cs)) (writeCodes buf cs)"
      using lt rd by (subst additionalLoop.simps) (simp add: scanLoop_member Let_def)
    also have "\<dots> = afterLoop d p buf (cs @ newChars cs ?rest)"
      using Suc.hyps(1) [OF m j1 Suc.prems(2)] .
    finally show ?thesis using True dr by simp
  next
    case False
    then have new: "cs @ newChars cs (drop (nat j) (take (nat n) chars)) =
        (cs @ [?ac]) @ newChars (cs @ [?ac]) ?rest"
      using dr by simp
    show ?thesis
    proof (cases "int (length cs) + 1 \<ge> ?M")
      case full: True
      with Suc.prems(2) have M: "nat ?M = length (cs @ [?ac])" by simp
      have "additionalLoop d p chars n j (int (length cs)) (writeCodes buf cs) =
            returnFull d (writeCodes buf (cs @ [?ac]))"
        using lt rd False full
        by (subst additionalLoop.simps) (simp add: scanLoop_member Let_def writeCodes_append)
      then show ?thesis by (simp only: new afterLoop_full [OF M])
    next
      case room: False
      then have len: "int (length (cs @ [?ac])) < ?M" by simp
      have "additionalLoop d p chars n j (int (length cs)) (writeCodes buf cs) =
            additionalLoop d p chars n (j + 1) (int (length (cs @ [?ac])))
              (writeCodes buf (cs @ [?ac]))"
        using lt rd False room
        by (subst additionalLoop.simps)
           (simp add: scanLoop_member Let_def writeCodes_append add.commute)
      also have "\<dots> = afterLoop d p buf ((cs @ [?ac]) @ newChars (cs @ [?ac]) ?rest)"
        using Suc.hyps(1) [OF m j1 len] .
      finally show ?thesis by (simp only: new)
    qed
  qed
qed

lemma padLoop_spec:
  "padLoop d p (int (length cs)) (writeCodes buf cs) =
   writeCodes buf (cs @ replicate (nat (MAX_PROXIMITY_CHARS_SIZE p) - length cs) (NOT_A_CODE d))"
proof (induction "nat (MAX_PROXIMITY_CHARS_SIZE p) - length cs" arbitrary: cs)
  case 0
  then have "\<not> int (length cs) < MAX_PROXIMITY_CHARS_SIZE p" by linarith
  with 0 show ?case by (subst padLoop.simps) simp
next
  case (Suc n)
  then have lt: "int (length cs) < MAX_PROXIMITY_CHARS_SIZE p" by linarith
  have n: "n = nat (MAX_PROXIMITY_CHARS_SIZE p) - length (cs @ [NOT_A_CODE d])"
    using Suc.hyps(2) by simp
  have "padLoop d p (int (length cs)) (writeCodes buf cs) =
        padLoop d p (int (length (cs @ [NOT_A_CODE d]))) (writeCodes buf (cs @ [NOT_A_CODE d]))"
    using lt by (subst padLoop.simps) (simp add: writeCodes_append add.commute)
  also have "\<dots> = writeCodes buf ((cs @ [NOT_A_CODE d]) @
      replicate (nat (MAX_PROXIMITY_CHARS_SIZE p) - length (cs @ [NOT_A_CODE d])) (NOT_A_CODE d))"
    using Suc.hyps(1) [OF n] .
  also have "\<dots> = writeCodes buf (cs @
      replicate (nat (MAX_PROXIMITY_CHARS_SIZE p) - length cs) (NOT_A_CODE d))"
    using Suc.hyps(2) [symmetric] n [symmetric] by (simp add: replicate_app_Cons_same)
  finally show ?case .
qed

lemma take_prefix: "n \<le> length xs \<Longrightarrow> take n (xs @ ys) = take n xs"
  by simp

lemma writeCodes_single: "buf(0 := v) = writeCodes buf [v]"
  by (rule ext) (auto simp: writeCodes_def)

lemma afterLoop_prefix:
  assumes "MAX_PROXIMITY_CHARS_SIZE p \<le> int (length cs)"
  shows "afterLoop d p buf (cs @ zs) = afterLoop d p buf cs"
proof -
  from assms have "nat (MAX_PROXIMITY_CHARS_SIZE p) \<le> length cs" by linarith
  then have "take (nat (MAX_PROXIMITY_CHARS_SIZE p)) (cs @ zs) =
      take (nat (MAX_PROXIMITY_CHARS_SIZE p)) cs"
    by (rule take_prefix)
  moreover from assms have "MAX_PROXIMITY_CHARS_SIZE p \<le> int (length (cs @ zs))" by simp
  ultimately show ?thesis using assms by (simp only: afterLoop_def if_True)
qed

lemma nearbyBlock_delimiter:
  assumes "gridLoop d p x y primaryKey s 0 insertPos0 inputCodes0 =
             Inr (Fallthrough (int (length cs)) (writeCodes buf cs))"
    and "0 < getAdditionalCharsSize d (mLocaleStr p) primaryKey"
  shows "nearbyBlock d p x y primaryKey s insertPos0 inputCodes0 =
         (if int (length cs) + 1 \<ge> MAX_PROXIMITY_CHARS_SIZE p then
            returnFull d (writeCodes buf (cs @ [ADDITIONAL_PROXIMITY_CHAR_DELIMITER_CODE d]))
          else
            additionalLoop d p (getAdditionalChars d (mLocaleStr p) primaryKey)
              (getAdditionalCharsSize d (mLocaleStr p) primaryKey) 0
              (int (length (cs @ [ADDITIONAL_PROXIMITY_CHAR_DELIMITER_CODE d])))
              (writeCodes buf (cs @ [ADDITIONAL_PROXIMITY_CHAR_DELIMITER_CODE d])))"
  using assms by (simp add: nearbyBlock_def Let_def writeCodes_append add.commute)

lemma nearbyBlock_spec:
  assumes wf: "keysReadable d p" and cell: "cellInRange p s"
    and size: "getAdditionalCharsSize d (mLocaleStr p) primaryKey
        \<le> int (length (getAdditionalChars d (mLocaleStr p) primaryKey))"
    and M: "2 \<le> MAX_PROXIMITY_CHARS_SIZE p"
  shows "nearbyBlock d p x y primaryKey s 1 (buf(0 := primaryKey)) =
         afterLoop d p buf (candidatesAt d p x y primaryKey s)"
proof -
  let ?M = "MAX_PROXIMITY_CHARS_SIZE p"
  let ?near = "primaryKey # nearbyCodes d p x y primaryKey s"
  let ?n = "getAdditionalCharsSize d (mLocaleStr p) primaryKey"
  let ?chars = "getAdditionalChars d (mLocaleStr p) primaryKey"
  let ?delim = "ADDITIONAL_PROXIMITY_CHAR_DELIMITER_CODE d"
  let ?new = "newChars (?near @ [?delim]) (additionalChars d p primaryKey)"
  have "gridLoop d p x y primaryKey s 0 (int (length [primaryKey])) (writeCodes buf [primaryKey]) =
        afterLoop d p buf ([primaryKey] @ filter (admits d p x y primaryKey) (drop (nat 0) (cellCodes p s)))"
    using M by (intro gridLoop_spec [OF wf cell]) simp_all
  then have grid: "gridLoop d p x y primaryKey s 0 1 (buf(0 := primaryKey)) = afterLoop d p buf ?near"
    by (simp add: writeCodes_single nearbyCodes_def)
  show ?thesis
  proof (cases "?n > 0")
    case n0: False
    then have c: "candidatesAt d p x y primaryKey s = ?near"
      by (simp add: candidatesAt_def)
    show ?thesis
    proof (cases "?M \<le> int (length ?near)")
      case True
      with grid n0 show ?thesis
        unfolding c by (simp add: nearbyBlock_def afterLoop_def returnFull_def)
    next
      case False
      with grid n0 show ?thesis
        unfolding c by (simp add: nearbyBlock_def afterLoop_def)
    qed
  next
    case n1: True
    then have c: "candidatesAt d p x y primaryKey s = ?near @ ([?delim] @ ?new)"
      by (simp add: candidatesAt_def)
    have c': "candidatesAt d p x y primaryKey s = (?near @ [?delim]) @ ?new"
      unfolding c by simp
    show ?thesis
    proof (cases "?M \<le> int (length ?near)")
      case True
      have "afterLoop d p buf (?near @ ([?delim] @ ?new)) = afterLoop d p buf ?near"
        by (rule afterLoop_prefix [OF True])
      with True grid show ?thesis
        unfolding c by (simp add: nearbyBlock_def afterLoop_def returnFull_def)
    next
      case False
      then have g: "gridLoop d p x y primaryKey s 0 1 (buf(0 := primaryKey)) =
          Inr (Fallthrough (int (length ?near)) (writeCodes buf ?near))"
        using grid by (simp add: afterLoop_def)
      show ?thesis
      proof (cases "int (length ?near) + 1 \<ge> ?M")
        case full: True
        with False have eq: "nat ?M = length (?near @ [?delim])" by simp
        have "nearbyBlock d p x y primaryKey s 1 (buf(0 := primaryKey)) =
            returnFull d (writeCodes buf (?near @ [?delim]))"
          using nearbyBlock_delimiter [OF g n1] full by (simp only: if_True)
        then show ?thesis by (simp only: c' afterLoop_full [OF eq])
      next
        case room: False
        then have len: "int (length (?near @ [?delim])) < ?M" by simp
        have "nearbyBlock d p x y primaryKey s 1 (buf(0 := primaryKey)) =
            additionalLoop d p ?chars ?n 0 (int (length (?near @ [?delim])))
              (writeCodes buf (?near @ [?delim]))"
          using nearbyBlock_delimiter [OF g n1] room by (simp only: if_False)
        also have "\<dots> = afterLoop d p buf
            ((?near @ [?delim]) @ newChars (?near @ [?delim]) (drop (nat 0) (take (nat ?n) ?chars)))"
          using len by (intro additionalLoop_spec [OF size]) simp_all
        finally show ?thesis unfolding c' by (simp add: additionalChars_def)
      qed
    qed
  qed
qed

lemma calculateNearbyKeyCodes_below_zero:
  assumes "getStartIndexFromCoordinates p x y = Inr s" and "s < 0"
  shows "calculateNearbyKeyCodes d p x y primaryKey buf =
         Inr (writeCodes buf
           (primaryKey # replicate (nat (MAX_PROXIMITY_CHARS_SIZE p) - 1) (NOT_A_CODE d)))"
proof -
  have "padLoop d p (int (length [primaryKey])) (writeCodes buf [primaryKey]) =
      writeCodes buf ([primaryKey] @
        replicate (nat (MAX_PROXIMITY_CHARS_SIZE p) - length [primaryKey]) (NOT_A_CODE d))"
    by (rule padLoop_spec)
  with assms show ?thesis
    by (simp add: calculateNearbyKeyCodes_def writeCodes_single)
qed

lemma capacity_ge2: "2 \<le> capacity p"
  unfolding capacity_def by linarith

lemma returnFull_cases:
  "(case returnFull d b of Inl f \<Rightarrow> Inl f | Inr (Returned ic) \<Rightarrow> Inr (Returned ic)
      | Inr (Fallthrough ip ic) \<Rightarrow> g ip ic) = returnFull d b"
  by (simp add: returnFull_def)

lemma nearbyBlock_tiny:
  assumes wf: "keysReadable d p" and cell: "cellInRange p s"
    and M: "MAX_PROXIMITY_CHARS_SIZE p \<le> 1"
  shows "nearbyBlock d p x y primaryKey s 1 (buf(0 := primaryKey)) =
         (if 2 \<le> length (candidatesAt d p x y primaryKey s) then
            returnFull d (writeCodes buf (take 2 (candidatesAt d p x y primaryKey s)))
          else Inr (Fallthrough 1 (writeCodes buf [primaryKey])))"
proof -
  let ?M = "MAX_PROXIMITY_CHARS_SIZE p"
  let ?b = "buf(0 := primaryKey)"
  let ?n = "getAdditionalCharsSize d (mLocaleStr p) primaryKey"
  let ?delim = "ADDITIONAL_PROXIMITY_CHAR_DELIMITER_CODE d"
  have b1: "?b(1 := v) = writeCodes buf [primaryKey, v]" for v
    by (rule ext) (auto simp: writeCodes_def nat_eq_iff)
  have none: "nearbyBlock d p x y primaryKey s 1 ?b =
      (if 2 \<le> length (candidatesAt d p x y primaryKey s) then
         returnFull d (writeCodes buf (take 2 (candidatesAt d p x y primaryKey s)))
       else Inr (Fallthrough 1 (writeCodes buf [primaryKey])))"
    if g: "gridLoop d p x y primaryKey s 0 1 ?b = Inr (Fallthrough 1 ?b)"
      and near: "nearbyCodes d p x y primaryKey s = []"
  proof (cases "?n > 0")
    case True
    with g M near show ?thesis
      by (simp add: nearbyBlock_def candidatesAt_def b1)
  next
    case False
    with g near show ?thesis
      by (simp add: nearbyBlock_def candidatesAt_def writeCodes_single)
  qed
  show ?thesis
  proof (cases "0 < ?M")
    case False
    then have "gridLoop d p x y primaryKey s 0 1 ?b = Inr (Fallthrough 1 ?b)"
      by (simp add: gridLoop_exit)
    moreover from False have "nearbyCodes d p x y primaryKey s = []"
      by (simp add: nearbyCodes_def cellCodes_def)
    ultimately show ?thesis by (rule none)
  next
    case True
    with M have M1: "?M = 1" by simp
    let ?c = "cellCodes p s ! nat 0"
    have rd: "aread (mProximityCharsArray p) (s + 0) = Inr ?c"
      using cellCodes_nth [OF cell _ True] by simp
    from cell M1 have "length (cellCodes p s) = 1" by (simp add: cellCodes_length)
    then have cc: "cellCodes p s = [?c]"
      by (cases "cellCodes p s") simp_all
    have out: "gridLoop d p x y primaryKey s (0 + 1) 1 ?b = Inr (Fallthrough 1 ?b)"
      using M1 by (simp add: gridLoop_exit)
    show ?thesis
    proof (cases "admits d p x y primaryKey ?c")
      case False
      have "gridLoop d p x y primaryKey s 0 1 ?b = gridLoop d p x y primaryKey s (0 + 1) 1 ?b"
        using gridLoop_unfold_skip [OF True rd False wf] .
      with out have "gridLoop d p x y primaryKey s 0 1 ?b = Inr (Fallthrough 1 ?b)" by simp
      moreover have "nearbyCodes d p x y primaryKey s = []"
        using False by (subst nearbyCodes_def, subst cc) simp
      ultimately show ?thesis by (rule none)
    next
      case adm: True
      have "gridLoop d p x y primaryKey s 0 1 ?b = returnFull d (?b(1 := ?c))"
        using gridLoop_unfold_take [OF True rd adm wf, of 1 ?b] M1 by simp
      then have "nearbyBlock d p x y primaryKey s 1 ?b = returnFull d (writeCodes buf [primaryKey, ?c])"
        by (simp add: nearbyBlock_def returnFull_cases b1)
      moreover have "nearbyCodes d p x y primaryKey s = [?c]"
        using adm by (subst nearbyCodes_def, subst cc) simp
      ultimately show ?thesis by (simp add: candidatesAt_def Let_def)
    qed
  qed
qed

lemma calculateNearbyKeyCodes_spec:
  assumes rd: "readable d p x y primaryKey"
  shows "calculateNearbyKeyCodes d p x y primaryKey buf =
         finish d p buf (candidates d p x y primaryKey)"
proof -
  let ?M = "MAX_PROXIMITY_CHARS_SIZE p"
  from rd obtain s where s: "getStartIndexFromCoordinates p x y = Inr s"
    and cell: "s < 0 \<or> cellInRange p s"
    by (auto simp: readable_def split: sum.splits)
  from rd have wf: "keysReadable d p"
    and size: "getAdditionalCharsSize d (mLocaleStr p) primaryKey
        \<le> int (length (getAdditionalChars d (mLocaleStr p) primaryKey))"
    by (simp_all add: readable_def)
  show ?thesis
  proof (cases "s \<ge> 0")
    case False
    then have "s < 0" by simp
    from calculateNearbyKeyCodes_below_zero [OF s this] False s capacity_ge2 [of p]
    show ?thesis
      by (simp add: candidates_def finish_def)
  next
    case True
    with cell have c: "cellInRange p s" by simp
    let ?cand = "candidates d p x y primaryKey"
    have cand: "?cand = candidatesAt d p x y primaryKey s"
      using s True by (simp add: candidates_def)
    show ?thesis
    proof (cases "2 \<le> ?M")
      case M: True
      then have cap: "capacity p = nat ?M" by (simp add: capacity_def)
      have blk: "nearbyBlock d p x y primaryKey s 1 (buf(0 := primaryKey)) = afterLoop d p buf ?cand"
        using nearbyBlock_spec [OF wf c size M] cand by simp
      show ?thesis
      proof (cases "?M \<le> int (length ?cand)")
        case full: True
        then have "capacity p \<le> length ?cand" using cap by linarith
        with full blk s True cap show ?thesis
          by (simp add: calculateNearbyKeyCodes_def afterLoop_def returnFull_def finish_def)
      next
        case False
        then have "\<not> capacity p \<le> length ?cand" using cap by linarith
        with False blk s True padLoop_spec [of d p ?cand buf] show ?thesis
          by (simp add: calculateNearbyKeyCodes_def afterLoop_def finish_def)
      qed
    next
      case False
      then have M: "?M \<le> 1" and cap: "capacity p = 2" by (simp_all add: capacity_def)
      have blk: "nearbyBlock d p x y primaryKey s 1 (buf(0 := primaryKey)) =
         (if 2 \<le> length ?cand then returnFull d (writeCodes buf (take 2 ?cand))
          else Inr (Fallthrough 1 (writeCodes buf [primaryKey])))"
        using nearbyBlock_tiny [OF wf c M] cand by simp
      show ?thesis
      proof (cases "2 \<le> length ?cand")
        case full: True
        with blk s True cap show ?thesis
          by (simp add: calculateNearbyKeyCodes_def returnFull_def finish_def)
      next
        case short: False
        have "?cand \<noteq> []" unfolding cand by (simp add: candidatesAt_def Let_def)
        then have "0 < length ?cand" by simp
        with short have one: "length ?cand = 1" by linarith
        have "hd ?cand = primaryKey" unfolding cand by (simp add: candidatesAt_def Let_def)
        with one have eq: "?cand = [primaryKey]" by (cases ?cand) simp_all
        have "padLoop d p (int (length [primaryKey])) (writeCodes buf [primaryKey]) =
            writeCodes buf ([primaryKey] @ replicate (nat ?M - length [primaryKey]) (NOT_A_CODE d))"
          by (rule padLoop_spec)
        with short blk s True cap M eq show ?thesis
          by (simp add: calculateNearbyKeyCodes_def finish_def)
      qed
    qed
  qed
qed

lemma hasSpaceLoop_found:
  assumes cell: "cellInRange p s"
  shows "0 \<le> i \<Longrightarrow>
         snd (hasSpaceLoop d p s i lg) =
         Inr (KEYCODE_SPACE d \<in> set (drop (nat i) (cellCodes p s)))"
proof (induction "nat (MAX_PROXIMITY_CHARS_SIZE p - i)" arbitrary: i lg)
  case 0
  then have "\<not> i < MAX_PROXIMITY_CHARS_SIZE p" by simp
  moreover from this cell have "drop (nat i) (cellCodes p s) = []"
    by (simp add: cellCodes_length)
  ultimately show ?case by (subst hasSpaceLoop.simps) simp
next
  case (Suc n)
  let ?c = "cellCodes p s ! nat i"
  let ?lg = "if DEBUG_PROXIMITY_INFO d then lg @ [Index ?c] else lg"
  from Suc.hyps(2) have lt: "i < MAX_PROXIMITY_CHARS_SIZE p" by simp
  have rd: "aread (mProximityCharsArray p) (s + i) = Inr ?c"
    using cellCodes_nth [OF cell Suc.prems lt] .
  have dr: "drop (nat i) (cellCodes p s) = ?c # drop (nat (i + 1)) (cellCodes p s)"
    using drop_cell_Cons [OF cell Suc.prems lt] .
  show ?case
  proof (cases "?c = KEYCODE_SPACE d")
    case True
    with lt rd dr show ?thesis by (subst hasSpaceLoop.simps) (simp add: Let_def)
  next
    case False
    have n: "n = nat (MAX_PROXIMITY_CHARS_SIZE p - (i + 1))" using Suc.hyps(2) by simp
    have "0 \<le> i + 1" using Suc.prems by simp
    from Suc.hyps(1) [OF n this, of ?lg]
    have "snd (hasSpaceLoop d p s (i + 1) ?lg) =
        Inr (KEYCODE_SPACE d \<in> set (drop (nat (i + 1)) (cellCodes p s)))" .
    moreover have "hasSpaceLoop d p s i lg = hasSpaceLoop d p s (i + 1) ?lg"
      using lt rd False by (subst hasSpaceLoop.simps) (simp add: Let_def)
    ultimately show ?thesis using False dr by auto
  qed
qed

section \<open>Reading the result\<close>

lemma readCodes_writeCodes:
  "n \<le> length cs \<Longrightarrow> readCodes (writeCodes buf cs) n = take n cs"
  by (rule nth_equalityI) (simp_all add: readCodes_def writeCodes_def)

lemma writeCodes_outside:
  "k < 0 \<or> int (length cs) \<le> k \<Longrightarrow> writeCodes buf cs k = buf k"
  by (auto simp: writeCodes_def)

lemma writeCodes_inside:
  "0 \<le> k \<Longrightarrow> k < int (length cs) \<Longrightarrow> writeCodes buf cs k = cs ! nat k"
  by (simp add: writeCodes_def)

lemma finish_Inl:
  assumes "finish d p buf cand = Inl f"
  shows "f = AssertionFailed \<and> DEBUG_DICT d \<and> \<not> NDEBUG d \<and> capacity p \<le> length cand"
  using assms by (auto simp: finish_def split: if_splits)

lemma finish_reads:
  assumes "finish d p buf cand = Inr out" and "n \<le> capacity p" and "n \<le> length cand"
  shows "readCodes out n = take n cand"
proof (cases "capacity p \<le> length cand")
  case True
  with assms(1) have "out = writeCodes buf (take (capacity p) cand)"
    by (simp add: finish_def split: if_splits)
  moreover have "n \<le> length (take (capacity p) cand)" using assms(2,3) by simp
  ultimately have "readCodes out n = take n (take (capacity p) cand)"
    by (simp only: readCodes_writeCodes)
  with assms(2) show ?thesis by (simp add: min_absorb1)
next
  case False
  let ?pad = "replicate (nat (MAX_PROXIMITY_CHARS_SIZE p) - length cand) (NOT_A_CODE d)"
  from False assms(1) have "out = writeCodes buf (cand @ ?pad)"
    by (simp add: finish_def)
  moreover have "n \<le> length (cand @ ?pad)" using assms(3) by simp
  ultimately have "readCodes out n = take n (cand @ ?pad)"
    by (simp only: readCodes_writeCodes)
  with assms(3) show ?thesis by simp
qed

lemma finish_padding:
  assumes "finish d p buf cand = Inr out"
    and "int (length cand) \<le> k" and "k < MAX_PROXIMITY_CHARS_SIZE p"
  shows "out k = NOT_A_CODE d"
proof -
  let ?M = "MAX_PROXIMITY_CHARS_SIZE p"
  let ?pad = "replicate (nat ?M - length cand) (NOT_A_CODE d)"
  from assms(2,3) have "\<not> capacity p \<le> length cand"
    unfolding capacity_def by linarith
  with assms(1) have out: "out = writeCodes buf (cand @ ?pad)"
    by (simp add: finish_def)
  from assms(2,3) have k: "0 \<le> k" "k < int (length (cand @ ?pad))" by simp_all
  from assms(2,3) have "\<not> nat k < length cand" "nat k - length cand < nat ?M - length cand"
    by linarith+
  then have "(cand @ ?pad) ! nat k = NOT_A_CODE d" by (simp add: nth_append)
  with out k show ?thesis by (simp only: writeCodes_inside)
qed

lemma finish_frame:
  assumes "finish d p buf cand = Inr out" and "2 \<le> MAX_PROXIMITY_CHARS_SIZE p"
    and "k < 0 \<or> MAX_PROXIMITY_CHARS_SIZE p \<le> k"
  shows "out k = buf k"
proof -
  let ?M = "MAX_PROXIMITY_CHARS_SIZE p"
  from assms(2) have cap: "capacity p = nat ?M" by (simp add: capacity_def)
  show ?thesis
  proof (cases "capacity p \<le> length cand")
    case True
    with assms(1) have "out = writeCodes buf (take (capacity p) cand)"
      by (simp add: finish_def split: if_splits)
    moreover from True cap assms(3) have "k < 0 \<or> int (length (take (capacity p) cand)) \<le> k"
      by simp linarith
    ultimately show ?thesis by (simp only: writeCodes_outside)
  next
    case False
    let ?pad = "replicate (nat ?M - length cand) (NOT_A_CODE d)"
    from False assms(1) have "out = writeCodes buf (cand @ ?pad)"
      by (simp add: finish_def)
    moreover from False cap assms(3) have "k < 0 \<or> int (length (cand @ ?pad)) \<le> k"
      by simp linarith
    ultimately show ?thesis by (simp only: writeCodes_outside)
  qed
qed






lemma readCodes_nth: "j < n \<Longrightarrow> readCodes out n ! j = out (int j)"
  by (simp add: readCodes_def)

lemma finish_nth:
  assumes "finish d p buf cand = Inr out"
    and "0 \<le> k" and "k < int (capacity p)" and "k < int (length cand)"
  shows "out k = cand ! nat k"
proof -
  from assms(2-4) have "Suc (nat k) \<le> capacity p" "Suc (nat k) \<le> length cand" by linarith+
  then have "readCodes out (Suc (nat k)) = take (Suc (nat k)) cand"
    by (rule finish_reads [OF assms(1)])
  then have "readCodes out (Suc (nat k)) ! nat k = take (Suc (nat k)) cand ! nat k" by simp
  moreover have "readCodes out (Suc (nat k)) ! nat k = out (int (nat k))"
    by (rule readCodes_nth) simp
  ultimately show ?thesis using assms(2) by simp
qed







subsection \<open>The distance to a key\<close>



section \<open>The example keyboards\<close>

lemma exampleEnv_fields:
  "DEBUG_DICT exampleEnv = False" "NDEBUG exampleEnv = True"
  "DEBUG_PROXIMITY_INFO exampleEnv = False"
  "KEYCODE_SPACE exampleEnv = 32" "NOT_A_CODE exampleEnv = - 1" "NOT_AN_INDEX exampleEnv = - 1"
  "ADDITIONAL_PROXIMITY_CHAR_DELIMITER_CODE exampleEnv = 2"
  "isOnKey exampleEnv = exampleIsOnKey"
  "getAdditionalCharsSize exampleEnv = exampleAdditionalCharsSize"
  "getAdditionalChars exampleEnv = exampleAdditionalChars"
  by (simp_all add: exampleEnv_def)

lemma debugEnv_fields:
  "DEBUG_DICT debugEnv = True" "NDEBUG debugEnv = False"
  "DEBUG_PROXIMITY_INFO debugEnv = False"
  "KEYCODE_SPACE debugEnv = 32" "NOT_A_CODE debugEnv = - 1" "NOT_AN_INDEX debugEnv = - 1"
  "ADDITIONAL_PROXIMITY_CHAR_DELIMITER_CODE debugEnv = 2"
  "isOnKey debugEnv = exampleIsOnKey"
  "getAdditionalCharsSize debugEnv = exampleAdditionalCharsSize"
  "getAdditionalChars debugEnv = exampleAdditionalChars"
  by (simp_all add: debugEnv_def exampleEnv_def)

lemma exampleKeyboard_fields:
  "MAX_PROXIMITY_CHARS_SIZE exampleKeyboard = 6" "GRID_WIDTH exampleKeyboard = 2"
  "MOST_COMMON_KEY_WIDTH_SQUARE exampleKeyboard = 100"
  "CELL_WIDTH exampleKeyboard = 10" "CELL_HEIGHT exampleKeyboard = 10"
  "KEY_COUNT exampleKeyboard = 0" "mKeyXCoordinates exampleKeyboard = []"
  "mProximityCharsArray exampleKeyboard =
     [97, 101, 0, 0, 0, 0,  101, 97, 0, 0, 0, 0,  32, 97, 0, 0, 0, 0,  32, 101, 0, 0, 0, 0]"
  by (simp_all add: exampleKeyboard_def)

lemma smallKeyboard_fields:
  "MAX_PROXIMITY_CHARS_SIZE smallKeyboard = 2" "GRID_WIDTH smallKeyboard = 2"
  "MOST_COMMON_KEY_WIDTH_SQUARE smallKeyboard = 100"
  "CELL_WIDTH smallKeyboard = 10" "CELL_HEIGHT smallKeyboard = 10"
  "KEY_COUNT smallKeyboard = 0" "mKeyXCoordinates smallKeyboard = []"
  "mProximityCharsArray smallKeyboard = [97, 101,  101, 97,  32, 97,  32, 101]"
  by (simp_all add: smallKeyboard_def exampleKeyboard_def)

lemma tinyKeyboard_fields:
  "MAX_PROXIMITY_CHARS_SIZE tinyKeyboard = 1" "GRID_WIDTH tinyKeyboard = 2"
  "MOST_COMMON_KEY_WIDTH_SQUARE tinyKeyboard = 100"
  "CELL_WIDTH tinyKeyboard = 10" "CELL_HEIGHT tinyKeyboard = 10"
  "KEY_COUNT tinyKeyboard = 0" "mKeyXCoordinates tinyKeyboard = []"
  "mProximityCharsArray tinyKeyboard = [97, 101, 32, 32]"
  by (simp_all add: tinyKeyboard_def exampleKeyboard_def)

lemmas example_simps =
  exampleEnv_fields debugEnv_fields exampleKeyboard_fields smallKeyboard_fields
  tinyKeyboard_fields exampleIsOnKey_def exampleAdditionalChars_def
  exampleAdditionalCharsSize_def additionalChars_def getStartIndexFromCoordinates_def cdiv_def
  cellCodes_def cellInRange_def admits_def getKeyIndex_def squaredDistanceToEdge_def
  nearbyCodes_def candidatesAt_def candidates_def capacity_def readable_def keysReadable_def
  validKeyId_def

lemma readable_examples:
  "readable exampleEnv exampleKeyboard 5 5 97"
  "readable exampleEnv exampleKeyboard 15 5 101"
  "readable exampleEnv exampleKeyboard (- 1) 5 97"
  "readable exampleEnv exampleKeyboard 5 (- 1) 97"
  "readable exampleEnv smallKeyboard 5 5 120"
  "readable debugEnv smallKeyboard 5 5 120"
  "readable exampleEnv tinyKeyboard 5 5 97"
  by (simp_all add: example_simps)

lemma candidates_examples:
  "candidates exampleEnv exampleKeyboard 5 5 97 = [97, 101, 2, 105]"
  "candidates exampleEnv exampleKeyboard 15 5 101 = [101, 97]"
  "candidates exampleEnv exampleKeyboard (- 1) 5 97 = [97, 101, 2, 105]"
  "candidates exampleEnv smallKeyboard 5 5 120 = [120, 97, 101]"
  "candidates debugEnv smallKeyboard 5 5 120 = [120, 97, 101]"
  "candidates exampleEnv tinyKeyboard 5 5 97 = [97, 2, 101, 105]"
  by (simp_all add: example_simps)

lemma calculate_examples:
  "calculateNearbyKeyCodes exampleEnv exampleKeyboard 5 5 97 zeroCodes =
     Inr (writeCodes zeroCodes [97, 101, 2, 105, - 1, - 1])"
  "calculateNearbyKeyCodes exampleEnv exampleKeyboard 15 5 101 zeroCodes =
     Inr (writeCodes zeroCodes [101, 97, - 1, - 1, - 1, - 1])"
  "calculateNearbyKeyCodes exampleEnv exampleKeyboard (- 1) 5 97 zeroCodes =
     Inr (writeCodes zeroCodes [97, 101, 2, 105, - 1, - 1])"
  "calculateNearbyKeyCodes exampleEnv smallKeyboard 5 5 120 zeroCodes =
     Inr (writeCodes zeroCodes [120, 97])"
  "calculateNearbyKeyCodes debugEnv smallKeyboard 5 5 120 zeroCodes = Inl AssertionFailed"
  "calculateNearbyKeyCodes exampleEnv tinyKeyboard 5 5 97 zeroCodes =
     Inr (writeCodes zeroCodes [97, 2])"
  using readable_examples
  by (simp_all add: calculateNearbyKeyCodes_spec candidates_examples finish_def capacity_def
        exampleEnv_fields debugEnv_fields exampleKeyboard_fields smallKeyboard_fields
        tinyKeyboard_fields numeral_eq_Suc)


section \<open>The claims\<close>

text \<open>
  C9. The error budget of the search: by default at most 2 correction operations are
  tolerated for a single word, \<^const>\<open>DEFAULT_MAX_ERRORS\<close>, and at most 1 when the input
  is split into two words, \<^const>\<open>MAX_ERRORS_FOR_TWO_WORDS\<close>.
\<close>

theorem error_tolerances:
  "DEFAULT_MAX_ERRORS = 2 \<and> MAX_ERRORS_FOR_TWO_WORDS = 1"
  by (simp add: DEFAULT_MAX_ERRORS_def MAX_ERRORS_FOR_TWO_WORDS_def)




text \<open>
  C4, as amended. The function does not test the coordinates and has no diagnostic to
  report. What it tests is the start index: when that is negative (as for \<open>x \<le> - CELL_WIDTH\<close>
  in the first row of the grid) it reads neither the grid nor the additional characters
  and returns the primary code followed by \<^verbatim>\<open>NOT_A_CODE\<close> up to the end of the array.
\<close>

theorem negative_start_index_gives_primary_only:
  assumes "getStartIndexFromCoordinates p x y = Inr s" and "s < 0"
  shows "calculateNearbyKeyCodes d p x y primaryKey buf =
         Inr (writeCodes buf
           (primaryKey # replicate (nat (MAX_PROXIMITY_CHARS_SIZE p) - 1) (NOT_A_CODE d)))"
  using assms by (rule calculateNearbyKeyCodes_below_zero)

text \<open>A touch one cell to the left of the example keyboard.\<close>

theorem negative_start_index_gives_primary_only_witness:
  "getStartIndexFromCoordinates exampleKeyboard (- 10) 5 = Inr (- 6) \<and>
   calculateNearbyKeyCodes exampleEnv exampleKeyboard (- 10) 5 97 zeroCodes =
     Inr (writeCodes zeroCodes [97, - 1, - 1, - 1, - 1, - 1])"
proof -
  have s: "getStartIndexFromCoordinates exampleKeyboard (- 10) 5 = Inr (- 6)"
    by (simp add: example_simps)
  from negative_start_index_gives_primary_only [OF s, of exampleEnv 97 zeroCodes] s
  show ?thesis by (simp add: example_simps numeral_eq_Suc)
qed

text \<open>
  C4 as stated fails for a negative coordinate within one cell of the border: at (- 1, 5)
  the start index is 0, and the result holds the code \<open>e\<close> of the first cell of the grid
  and the additional character \<open>i\<close> of \<open>a\<close>, not an empty list.
\<close>

theorem negative_coordinate_reads_grid:
  "getStartIndexFromCoordinates exampleKeyboard (- 1) 5 = Inr 0 \<and>
   cellCodes exampleKeyboard 0 = [97, 101, 0, 0, 0, 0] \<and>
   calculateNearbyKeyCodes exampleEnv exampleKeyboard (- 1) 5 97 zeroCodes =
     Inr (writeCodes zeroCodes [97, 101, 2, 105, - 1, - 1])"
  by (simp add: calculate_examples example_simps)

text \<open>
  C6, as amended. When \<^verbatim>\<open>MAX_PROXIMITY_CHARS_SIZE\<close> is at least 2, every write goes to an
  index from 0 up to but excluding it (whatever the caller's array holds elsewhere is
  left alone), the array holds the candidate codes as far as there is room for them, and
  the room they leave is filled with \<^verbatim>\<open>NOT_A_CODE\<close>. A list that fills the array stops the
  function; in a debug build with assertions enabled that stop is a failed assertion.
\<close>

theorem writes_stay_below_maximum:
  assumes rd: "readable d p x y primaryKey" and M: "2 \<le> MAX_PROXIMITY_CHARS_SIZE p"
  shows "case calculateNearbyKeyCodes d p x y primaryKey buf of
           Inr out \<Rightarrow>
             (\<forall>k. k < 0 \<or> MAX_PROXIMITY_CHARS_SIZE p \<le> k \<longrightarrow> out k = buf k) \<and>
             (\<forall>k. int (length (candidates d p x y primaryKey)) \<le> k \<and>
                   k < MAX_PROXIMITY_CHARS_SIZE p \<longrightarrow> out k = NOT_A_CODE d) \<and>
             (\<forall>k. 0 \<le> k \<and> k < int (length (candidates d p x y primaryKey)) \<and>
                   k < MAX_PROXIMITY_CHARS_SIZE p \<longrightarrow>
                   out k = candidates d p x y primaryKey ! nat k)
         | Inl f \<Rightarrow>
             f = AssertionFailed \<and> DEBUG_DICT d \<and> \<not> NDEBUG d \<and>
             MAX_PROXIMITY_CHARS_SIZE p \<le> int (length (candidates d p x y primaryKey))"
proof -
  let ?cand = "candidates d p x y primaryKey"
  from M have cap: "int (capacity p) = MAX_PROXIMITY_CHARS_SIZE p" by (simp add: capacity_def)
  have calc: "calculateNearbyKeyCodes d p x y primaryKey buf = finish d p buf ?cand"
    using rd by (rule calculateNearbyKeyCodes_spec)
  show ?thesis
  proof (cases "finish d p buf ?cand")
    case (Inl f)
    from finish_Inl [OF Inl] cap
    have "f = AssertionFailed \<and> DEBUG_DICT d \<and> \<not> NDEBUG d \<and>
        MAX_PROXIMITY_CHARS_SIZE p \<le> int (length ?cand)" by linarith
    with calc Inl show ?thesis by simp
  next
    case (Inr out)
    have "out k = buf k" if "k < 0 \<or> MAX_PROXIMITY_CHARS_SIZE p \<le> k" for k
      using Inr M that by (rule finish_frame)
    moreover have "out k = NOT_A_CODE d"
      if "int (length ?cand) \<le> k \<and> k < MAX_PROXIMITY_CHARS_SIZE p" for k
      using that by (intro finish_padding [OF Inr]) simp_all
    moreover have "out k = ?cand ! nat k"
      if "0 \<le> k \<and> k < int (length ?cand) \<and> k < MAX_PROXIMITY_CHARS_SIZE p" for k
      using that cap by (intro finish_nth [OF Inr]) simp_all
    ultimately show ?thesis using calc Inr by simp
  qed
qed

text \<open>
  At (5, 5) with the primary code \<open>a\<close> four codes are written and two slots padded; the
  entries before and after the 6 slots are the caller's.
\<close>

theorem writes_stay_below_maximum_witness:
  "readable exampleEnv exampleKeyboard 5 5 97 \<and>
   (case calculateNearbyKeyCodes exampleEnv exampleKeyboard 5 5 97 zeroCodes of
      Inr out \<Rightarrow>
        out (- 1) = zeroCodes (- 1) \<and> out 6 = zeroCodes 6 \<and> out 3 = 105 \<and>
        out 4 = - 1 \<and> out 5 = - 1
    | Inl f \<Rightarrow> False)"
proof (cases "calculateNearbyKeyCodes exampleEnv exampleKeyboard 5 5 97 zeroCodes")
  case (Inl f)
  with writes_stay_below_maximum [OF readable_examples(1), of zeroCodes]
  show ?thesis by (simp add: example_simps)
next
  case (Inr out)
  with writes_stay_below_maximum [OF readable_examples(1), of zeroCodes]
  have frame: "\<forall>k. k < 0 \<or> 6 \<le> k \<longrightarrow> out k = zeroCodes k"
    and pad: "\<forall>k. 4 \<le> k \<and> k < 6 \<longrightarrow> out k = - 1"
    and nth: "\<forall>k. 0 \<le> k \<and> k < 4 \<and> k < 6 \<longrightarrow> out k = [97, 101, 2, 105] ! nat k"
    by (simp_all add: candidates_examples exampleKeyboard_fields exampleEnv_fields)
  from frame [rule_format, of "- 1"] frame [rule_format, of 6] pad [rule_format, of 4]
    pad [rule_format, of 5] nth [rule_format, of 3]
  have "out (- 1) = zeroCodes (- 1) \<and> out 6 = zeroCodes 6 \<and> out 3 = 105 \<and>
      out 4 = - 1 \<and> out 5 = - 1"
    by (simp add: eval_nat_numeral)
  with Inr readable_examples(1) show ?thesis by simp
qed

text \<open>
  C6 as stated fails on a grid with one code to a cell: at (5, 5) with the primary code
  \<open>a\<close> the delimiter is written at index 1, past the one slot there is, since the insert
  position is compared with the size only after an append. And a list that fills the
  array is an error in a debug build: with 2 codes to a cell and the primary code \<open>x\<close>
  the second code fills the array and the assertion fails.
\<close>

theorem one_code_array_overrun:
  "MAX_PROXIMITY_CHARS_SIZE tinyKeyboard = 1 \<and>
   calculateNearbyKeyCodes exampleEnv tinyKeyboard 5 5 97 zeroCodes =
     Inr (writeCodes zeroCodes [97, 2]) \<and>
   zeroCodes 1 = 0 \<and> writeCodes zeroCodes [97, 2] 1 = 2 \<and>
   calculateNearbyKeyCodes debugEnv smallKeyboard 5 5 120 zeroCodes = Inl AssertionFailed"
proof -
  have "zeroCodes 1 = 0" by (simp add: zeroCodes_def)
  moreover have "writeCodes zeroCodes [97, 2] 1 = 2" by (simp add: writeCodes_def)
  ultimately show ?thesis by (simp add: calculate_examples tinyKeyboard_fields)
qed








text \<open>
  C5, as amended. When the cell of a point with non-negative coordinates is inside the
  grid, \<^const>\<open>hasSpaceProximity\<close> returns true if and only if the space code is among the
  entries of that cell. For a negative coordinate it never returns true and never reads
  the grid: a release build returns false and logs nothing; a debug build logs the
  illegal coordinates and then fails its assertion (it returns false only when
  \<^verbatim>\<open>NDEBUG\<close> has turned the assertion off).
\<close>

theorem hasSpaceProximity_result:
  assumes "0 \<le> x \<and> 0 \<le> y \<longrightarrow>
           getStartIndexFromCoordinates p x y = Inr s \<and> cellInRange p s"
  shows "snd (hasSpaceProximity d p x y) =
           (if (x < 0 \<or> y < 0) \<and> DEBUG_DICT d \<and> \<not> NDEBUG d then Inl AssertionFailed
            else Inr (0 \<le> x \<and> 0 \<le> y \<and> KEYCODE_SPACE d \<in> set (cellCodes p s))) \<and>
         (x < 0 \<or> y < 0 \<longrightarrow>
            fst (hasSpaceProximity d p x y) =
            (if DEBUG_DICT d then [IllegalCoordinates x y] else []))"
proof (cases "x < 0 \<or> y < 0")
  case True
  then show ?thesis by (auto simp: hasSpaceProximity_def)
next
  case False
  with assms have s: "getStartIndexFromCoordinates p x y = Inr s" and cell: "cellInRange p s"
    by simp_all
  have "snd (hasSpaceLoop d p s 0 lg) = Inr (KEYCODE_SPACE d \<in> set (cellCodes p s))" for lg
    using hasSpaceLoop_found [OF cell, of 0 d lg] by simp
  with False s show ?thesis by (simp add: hasSpaceProximity_def)
qed

text \<open>
  On the example keyboard the cell of (5, 15) holds the space code and the cell of (5, 5)
  does not; in the debug build the point (- 1, 5) is logged and asserted.
\<close>

theorem hasSpaceProximity_result_witness:
  "getStartIndexFromCoordinates exampleKeyboard 5 15 = Inr 12 \<and> cellInRange exampleKeyboard 12 \<and>
   snd (hasSpaceProximity exampleEnv exampleKeyboard 5 15) = Inr True \<and>
   snd (hasSpaceProximity exampleEnv exampleKeyboard 5 5) = Inr False \<and>
   hasSpaceProximity debugEnv exampleKeyboard (- 1) 5 =
     ([IllegalCoordinates (- 1) 5], Inl AssertionFailed)"
proof -
  have s: "getStartIndexFromCoordinates exampleKeyboard 5 15 = Inr 12"
    "cellInRange exampleKeyboard 12"
    "getStartIndexFromCoordinates exampleKeyboard 5 5 = Inr 0"
    "cellInRange exampleKeyboard 0"
    by (simp_all add: example_simps)
  from hasSpaceProximity_result [of 5 15 exampleKeyboard 12 exampleEnv] s
  have a: "snd (hasSpaceProximity exampleEnv exampleKeyboard 5 15) = Inr True"
    by (simp add: example_simps)
  from hasSpaceProximity_result [of 5 5 exampleKeyboard 0 exampleEnv] s
  have b: "snd (hasSpaceProximity exampleEnv exampleKeyboard 5 5) = Inr False"
    by (simp add: example_simps)
  from hasSpaceProximity_result [of "- 1" 5 exampleKeyboard 0 debugEnv]
  have "snd (hasSpaceProximity debugEnv exampleKeyboard (- 1) 5) = Inl AssertionFailed"
    and "fst (hasSpaceProximity debugEnv exampleKeyboard (- 1) 5) = [IllegalCoordinates (- 1) 5]"
    by (simp_all add: debugEnv_fields)
  then have c: "hasSpaceProximity debugEnv exampleKeyboard (- 1) 5 =
      ([IllegalCoordinates (- 1) 5], Inl AssertionFailed)"
    by (simp add: prod_eq_iff)
  from s(1,2) a b c show ?thesis by simp
qed

text \<open>
  C5 as stated fails in a release build: \<open>hasSpaceProximity(-1, 5)\<close> returns false and
  there is no diagnostic.
\<close>

theorem negative_coordinate_is_silent_in_release:
  "DEBUG_DICT exampleEnv = False \<and>
   hasSpaceProximity exampleEnv exampleKeyboard (- 1) 5 = ([], Inr False)"
  by (simp add: hasSpaceProximity_def exampleEnv_fields)




text \<open>
  C2. For a negative key id the code returns \<^verbatim>\<open>true\<close>, the distance 1, and the caller
  compares it with \<^verbatim>\<open>MOST_COMMON_KEY_WIDTH_SQUARE\<close> like any distance: where the most
  common key is one pixel wide the result does not pass the test.
\<close>

theorem negative_key_distance_is_the_number_one:
  "squaredDistanceToEdge narrowKeyboard (- 1) 5 5 = Inr 1 \<and>
   MOST_COMMON_KEY_WIDTH_SQUARE narrowKeyboard = 1 \<and>
   \<not> (1 < MOST_COMMON_KEY_WIDTH_SQUARE narrowKeyboard)"
  by (simp add: squaredDistanceToEdge_def narrowKeyboard_def)

end
